theory Spec2Isabelle
  imports Main
begin

section \<open>Data model: the tables of the migrations\<close>

text \<open>
  The membership and invitation logic of the issue tracker lives in the SQL migrations
  (tables, row-level-security policies, the trigger \<open>add_owner_as_member\<close>, the stored
  procedure \<open>accept_invitation\<close>) and in the handlers of \<open>TeamManagement.tsx\<close> and of the
  invitation acceptance page. The database is a record of tables, each table a list of
  rows; every SQL statement is a function from the database to a result and a new
  database. \<open>gen_random_uuid()\<close> and \<open>now()\<close> are inputs of the statement that uses them.
  Timestamps are counted in seconds. SQL \<open>NULL\<close> is \<open>None\<close>.
\<close>

type_synonym uuid = nat
type_synonym timestamptz = int

datatype member_role = Owner | Contributor

record projects_row =
  p_id :: uuid
  p_name :: string
  p_description :: "string option"
  p_owner_id :: uuid
  p_created_at :: timestamptz
  p_updated_at :: timestamptz

record project_members_row =
  pm_id :: uuid
  pm_project_id :: uuid
  pm_user_id :: uuid
  pm_role :: member_role
  pm_invited_by :: uuid
  pm_invited_at :: timestamptz
  pm_joined_at :: "timestamptz option"
  pm_created_at :: timestamptz
  pm_updated_at :: timestamptz

record project_invitations_row =
  pi_id :: uuid
  pi_project_id :: uuid
  pi_email :: string
  pi_role :: member_role
  pi_invited_by :: uuid
  pi_token :: uuid
  pi_expires_at :: timestamptz
  pi_accepted_at :: "timestamptz option"
  pi_created_at :: timestamptz

text \<open>
  \<open>auth_users\<close> is the table \<open>auth.users\<close> of the hosted backend, reduced to the two
  columns the migrations read: \<open>id\<close> and the nullable \<open>email\<close>.
\<close>

record db =
  projects :: "projects_row list"
  project_members :: "project_members_row list"
  project_invitations :: "project_invitations_row list"
  auth_users :: "(uuid \<times> string option) list"

datatype db_error = rls_violation | not_null_violation | unique_violation

definition interval_7_days :: timestamptz where
  "interval_7_days = 7 * 24 * 60 * 60"

section \<open>Authorization predicates\<close>

text \<open>
  \<open>auth.uid()\<close> is the parameter \<open>uid\<close>; it is \<open>None\<close> for a request without a session.
  A comparison with \<open>NULL\<close> is not true, so a row never matches a missing \<open>uid\<close>.
\<close>

definition is_project_owner :: "uuid option \<Rightarrow> db \<Rightarrow> uuid \<Rightarrow> bool" where
  "is_project_owner uid d project_id_param =
     list_ex (\<lambda>p. p_id p = project_id_param \<and> Some (p_owner_id p) = uid) (projects d)"

definition is_project_member :: "uuid option \<Rightarrow> db \<Rightarrow> uuid \<Rightarrow> bool" where
  "is_project_member uid d project_id_param =
     list_ex (\<lambda>m. pm_project_id m = project_id_param \<and> Some (pm_user_id m) = uid
                 \<and> pm_joined_at m \<noteq> None) (project_members d)"

text \<open>\<open>SELECT email FROM auth.users WHERE id = auth.uid()\<close>: \<open>NULL\<close> when no row matches.\<close>

definition get_current_user_email :: "uuid option \<Rightarrow> db \<Rightarrow> string option" where
  "get_current_user_email uid d =
     (case uid of None \<Rightarrow> None
      | Some u \<Rightarrow> (case map_of (auth_users d) u of None \<Rightarrow> None | Some e \<Rightarrow> e))"

subsection \<open>Row-level-security policies, as they stand after the last migration\<close>

text \<open>
  On \<open>project_invitations\<close>: "Project members can create / update / delete / view
  invitations" and "Users can view invitations sent to their email". A \<open>DELETE\<close> or
  \<open>UPDATE\<close> whose \<open>WHERE\<close> clause reads the row also needs the row to pass a \<open>SELECT\<close>
  policy.
\<close>

definition invitations_select_policy :: "uuid option \<Rightarrow> db \<Rightarrow> project_invitations_row \<Rightarrow> bool" where
  "invitations_select_policy uid d i =
     ((is_project_owner uid d (pi_project_id i) \<or> is_project_member uid d (pi_project_id i))
      \<or> Some (pi_email i) = get_current_user_email uid d)"

definition invitations_insert_check :: "uuid option \<Rightarrow> db \<Rightarrow> project_invitations_row \<Rightarrow> bool" where
  "invitations_insert_check uid d i =
     (is_project_owner uid d (pi_project_id i) \<or> is_project_member uid d (pi_project_id i))"

definition invitations_delete_policy :: "uuid option \<Rightarrow> db \<Rightarrow> project_invitations_row \<Rightarrow> bool" where
  "invitations_delete_policy uid d i =
     (is_project_owner uid d (pi_project_id i) \<or> is_project_member uid d (pi_project_id i))"

text \<open>
  On \<open>project_members\<close>: "Users can view members of accessible projects" (\<open>SELECT\<close>),
  "Project owners can manage members" (\<open>ALL\<close>) and "Users can update their own
  membership" (\<open>UPDATE\<close>).
\<close>

definition members_select_policy :: "uuid option \<Rightarrow> db \<Rightarrow> project_members_row \<Rightarrow> bool" where
  "members_select_policy uid d m =
     ((is_project_owner uid d (pm_project_id m) \<or> is_project_member uid d (pm_project_id m))
      \<or> is_project_owner uid d (pm_project_id m))"

definition members_delete_policy :: "uuid option \<Rightarrow> db \<Rightarrow> project_members_row \<Rightarrow> bool" where
  "members_delete_policy uid d m = is_project_owner uid d (pm_project_id m)"

definition members_update_policy :: "uuid option \<Rightarrow> db \<Rightarrow> project_members_row \<Rightarrow> bool" where
  "members_update_policy uid d m =
     (is_project_owner uid d (pm_project_id m) \<or> Some (pm_user_id m) = uid)"

text \<open>On \<open>projects\<close>: "Users can create projects", \<open>WITH CHECK (auth.uid() = owner_id)\<close>.\<close>

definition projects_insert_check :: "uuid option \<Rightarrow> projects_row \<Rightarrow> bool" where
  "projects_insert_check uid p = (uid = Some (p_owner_id p))"

section \<open>Strings of the client\<close>

text \<open>
  A string is a list of Latin-1 code units, which covers e-mail addresses.
  \<open>trim\<close> is \<open>String.prototype.trim\<close>, \<open>toLowerCase\<close> is \<open>String.prototype.toLowerCase\<close>
  on these code units.
\<close>

definition is_white_space :: "char \<Rightarrow> bool" where
  "is_white_space c = (of_char c \<in> {9, 10, 11, 12, 13, 32, 160 :: nat})"

definition trim :: "string \<Rightarrow> string" where
  "trim s = rev (dropWhile is_white_space (rev (dropWhile is_white_space s)))"

definition is_upper :: "char \<Rightarrow> bool" where
  "is_upper c = (let n = (of_char c :: nat) in
     (65 \<le> n \<and> n \<le> 90) \<or> (192 \<le> n \<and> n \<le> 222 \<and> n \<noteq> 215))"

definition lower_char :: "char \<Rightarrow> char" where
  "lower_char c = (if is_upper c then char_of (of_char c + 32 :: nat) else c)"

definition toLowerCase :: "string \<Rightarrow> string" where
  "toLowerCase s = map lower_char s"

section \<open>Statements issued by the client, under row-level security\<close>

text \<open>
  \<open>supabase.from('project_invitations').delete()\<close> with its filters: the rows deleted
  are those that match the filter and that the policies let the caller see and delete.
  Rows the policies hide are skipped without an error.
\<close>

definition delete_invitations ::
  "uuid option \<Rightarrow> (project_invitations_row \<Rightarrow> bool) \<Rightarrow> db \<Rightarrow> db" where
  "delete_invitations uid flt d =
     d\<lparr>project_invitations :=
        filter (\<lambda>i. \<not> (flt i \<and> invitations_select_policy uid d i
                          \<and> invitations_delete_policy uid d i))
          (project_invitations d)\<rparr>"

text \<open>
  \<open>insert({project_id, email, role, invited_by}).select('token').single()\<close>. The columns
  left out take their defaults. The policies are checked first (the \<open>INSERT\<close> check, and
  a \<open>SELECT\<close> policy because the row is returned), then the primary key and
  \<open>UNIQUE(project_id, email)\<close>. A failed statement leaves the table as it was.
\<close>

definition new_invitation ::
  "timestamptz \<Rightarrow> uuid \<Rightarrow> uuid \<Rightarrow> uuid \<Rightarrow> string \<Rightarrow> member_role \<Rightarrow> uuid
     \<Rightarrow> project_invitations_row" where
  "new_invitation now new_id new_token projectId email role invited_by =
     \<lparr>pi_id = new_id, pi_project_id = projectId, pi_email = email, pi_role = role,
      pi_invited_by = invited_by, pi_token = new_token,
      pi_expires_at = now + interval_7_days, pi_accepted_at = None, pi_created_at = now\<rparr>"

definition insert_invitation ::
  "uuid option \<Rightarrow> project_invitations_row \<Rightarrow> db \<Rightarrow> db_error + db" where
  "insert_invitation uid row d =
     (if \<not> (invitations_insert_check uid d row \<and> invitations_select_policy uid d row)
        then Inl rls_violation
      else if list_ex (\<lambda>i. pi_id i = pi_id row) (project_invitations d)
        then Inl unique_violation
      else if list_ex (\<lambda>i. pi_project_id i = pi_project_id row \<and> pi_email i = pi_email row)
                (project_invitations d)
        then Inl unique_violation
      else Inr (d\<lparr>project_invitations := project_invitations d @ [row]\<rparr>))"

definition delete_member :: "uuid option \<Rightarrow> uuid \<Rightarrow> db \<Rightarrow> db" where
  "delete_member uid memberId d =
     d\<lparr>project_members :=
        filter (\<lambda>m. \<not> (pm_id m = memberId \<and> members_select_policy uid d m
                          \<and> members_delete_policy uid d m))
          (project_members d)\<rparr>"

text \<open>
  \<open>update({role: newRole}).eq('id', memberId)\<close>; the trigger
  \<open>update_project_members_updated_at\<close> stamps every updated row.
\<close>

definition update_member_role :: "uuid option \<Rightarrow> timestamptz \<Rightarrow> uuid \<Rightarrow> member_role \<Rightarrow> db \<Rightarrow> db" where
  "update_member_role uid now memberId newRole d =
     d\<lparr>project_members :=
        map (\<lambda>m. if pm_id m = memberId \<and> members_select_policy uid d m
                       \<and> members_update_policy uid d m
                 then m\<lparr>pm_role := newRole, pm_updated_at := now\<rparr> else m)
          (project_members d)\<rparr>"

section \<open>Handlers of the team management component\<close>

record toast =
  title :: string
  description :: string
  variant :: "string option"

definition toast_warning :: toast where
  "toast_warning = \<lparr>title = ''Warning'',
     description = ''Invitation created but email could not be sent. Please check your email configuration.'',
     variant = Some ''destructive''\<rparr>"

definition toast_invitation_sent :: "string \<Rightarrow> toast" where
  "toast_invitation_sent inviteEmail = \<lparr>title = ''Invitation sent'',
     description = ''Invitation email sent to '' @ inviteEmail, variant = None\<rparr>"

definition toast_invite_error :: toast where
  "toast_invite_error = \<lparr>title = ''Error'', description = ''Failed to send invitation'',
     variant = Some ''destructive''\<rparr>"


definition toast_invitation_revoked :: toast where
  "toast_invitation_revoked = \<lparr>title = ''Invitation revoked'',
     description = ''Invitation has been revoked'', variant = None\<rparr>"

definition toast_role_updated :: toast where
  "toast_role_updated = \<lparr>title = ''Role updated'',
     description = ''Member role has been updated'', variant = None\<rparr>"

text \<open>
  \<open>handleInviteUser\<close>. The delete and the insert are two statements, each committed on
  its own; the result of the delete is not inspected. \<open>email_error\<close> is the \<open>error\<close>
  returned by \<open>supabase.functions.invoke('send-invitation', ...)\<close>. The handler returns
  the toast it shows (none on the early return) and the database.
\<close>

definition handleInviteUser ::
  "uuid option \<Rightarrow> timestamptz \<Rightarrow> uuid \<Rightarrow> uuid \<Rightarrow> bool
     \<Rightarrow> uuid \<Rightarrow> uuid \<Rightarrow> string \<Rightarrow> member_role \<Rightarrow> db \<Rightarrow> toast option \<times> db" where
  "handleInviteUser uid now new_id new_token email_error projectId userId inviteEmail inviteRole d =
     (if trim inviteEmail = [] then (None, d)
      else
        let email = toLowerCase (trim inviteEmail);
            d1 = delete_invitations uid
                   (\<lambda>i. pi_project_id i = projectId \<and> pi_email i = email
                         \<and> pi_accepted_at i = None) d
        in case insert_invitation uid
                  (new_invitation now new_id new_token projectId email inviteRole userId) d1 of
             Inl insertError \<Rightarrow> (Some toast_invite_error, d1)
           | Inr d2 \<Rightarrow>
               (if email_error then (Some toast_warning, d2)
                else (Some (toast_invitation_sent inviteEmail), d2)))"


definition handleRevokeInvitation :: "uuid option \<Rightarrow> uuid \<Rightarrow> db \<Rightarrow> toast \<times> db" where
  "handleRevokeInvitation uid invitationId d =
     (toast_invitation_revoked, delete_invitations uid (\<lambda>i. pi_id i = invitationId) d)"

definition handleUpdateRole ::
  "uuid option \<Rightarrow> timestamptz \<Rightarrow> uuid \<Rightarrow> member_role \<Rightarrow> db \<Rightarrow> toast \<times> db" where
  "handleUpdateRole uid now memberId newRole d =
     (toast_role_updated, update_member_role uid now memberId newRole d)"



text \<open>
  The pending invitations listed by \<open>fetchTeamData\<close>; \<open>client_now\<close> is the client's
  \<open>new Date()\<close>.
\<close>

definition fetchPendingInvitations ::
  "uuid option \<Rightarrow> timestamptz \<Rightarrow> uuid \<Rightarrow> db \<Rightarrow> project_invitations_row list" where
  "fetchPendingInvitations uid client_now projectId d =
     filter (\<lambda>i. invitations_select_policy uid d i \<and> pi_project_id i = projectId
                 \<and> pi_accepted_at i = None \<and> pi_expires_at i > client_now)
       (project_invitations d)"

text \<open>
  \<open>fetchInvitation\<close> of the acceptance page: \<open>.single()\<close> yields the row when exactly
  one row matches and an error otherwise.
\<close>

definition fetchInvitation ::
  "uuid option \<Rightarrow> timestamptz \<Rightarrow> uuid \<Rightarrow> db \<Rightarrow> project_invitations_row option" where
  "fetchInvitation uid client_now token d =
     (case filter (\<lambda>i. invitations_select_policy uid d i \<and> pi_token i = token
                       \<and> pi_accepted_at i = None \<and> pi_expires_at i > client_now)
             (project_invitations d) of
        [i] \<Rightarrow> Some i
      | _ \<Rightarrow> None)"

section \<open>Triggers and stored procedures\<close>

text \<open>
  An \<open>INSERT\<close> into \<open>projects\<close> fires \<open>add_owner_as_member\<close>, which runs as its
  definer, outside row-level security. An exception in the trigger aborts the insert.
  The table \<open>columns\<close> and the trigger that fills it are left out.
\<close>

definition add_owner_as_member ::
  "timestamptz \<Rightarrow> uuid \<Rightarrow> projects_row \<Rightarrow> db \<Rightarrow> db_error + db" where
  "add_owner_as_member now new_member_id NEW d =
     (if list_ex (\<lambda>m. pm_id m = new_member_id) (project_members d) then Inl unique_violation
      else if list_ex (\<lambda>m. pm_project_id m = p_id NEW \<and> pm_user_id m = p_owner_id NEW)
                (project_members d)
        then Inl unique_violation
      else Inr (d\<lparr>project_members := project_members d @
             [\<lparr>pm_id = new_member_id, pm_project_id = p_id NEW, pm_user_id = p_owner_id NEW,
               pm_role = Owner, pm_invited_by = p_owner_id NEW, pm_invited_at = now,
               pm_joined_at = Some now, pm_created_at = now, pm_updated_at = now\<rparr>]\<rparr>))"

definition insert_project ::
  "uuid option \<Rightarrow> timestamptz \<Rightarrow> uuid \<Rightarrow> uuid \<Rightarrow> string \<Rightarrow> string option \<Rightarrow> uuid \<Rightarrow> db
     \<Rightarrow> db_error + (projects_row \<times> db)" where
  "insert_project uid now new_id new_member_id project_name project_description owner_id d =
     (let NEW = \<lparr>p_id = new_id, p_name = project_name,
                  p_description = project_description,
                  p_owner_id = owner_id, p_created_at = now, p_updated_at = now\<rparr>
      in if \<not> projects_insert_check uid NEW then Inl rls_violation
         else if list_ex (\<lambda>p. p_id p = new_id) (projects d) then Inl unique_violation
         else case add_owner_as_member now new_member_id NEW
                     (d\<lparr>projects := projects d @ [NEW]\<rparr>) of
                Inl e \<Rightarrow> Inl e
              | Inr d' \<Rightarrow> Inr (NEW, d'))"

text \<open>
  \<open>accept_invitation(invitation_token)\<close>, one transaction running as its definer.
  \<open>SELECT ... INTO\<close> keeps the first matching row. The comparison \<open>!=\<close> is \<open>NULL\<close>,
  hence not true, when the caller has no e-mail. An exception (\<open>Inl\<close>) rolls the
  transaction back.
\<close>

record accept_json =
  success :: bool
  project_id :: "uuid option"
  error :: "string option"

definition select_invitation ::
  "uuid \<Rightarrow> timestamptz \<Rightarrow> db \<Rightarrow> project_invitations_row option" where
  "select_invitation invitation_token now d =
     find (\<lambda>i. pi_token i = invitation_token \<and> pi_expires_at i > now
               \<and> pi_accepted_at i = None) (project_invitations d)"

definition sql_neq :: "string option \<Rightarrow> string option \<Rightarrow> bool option" where
  "sql_neq a b = (case (a, b) of (Some x, Some y) \<Rightarrow> Some (x \<noteq> y) | _ \<Rightarrow> None)"

definition upsert_member ::
  "uuid option \<Rightarrow> timestamptz \<Rightarrow> uuid \<Rightarrow> project_invitations_row
     \<Rightarrow> project_members_row list \<Rightarrow> db_error + project_members_row list" where
  "upsert_member uid now new_member_id invitation_record ms =
     (case uid of
        None \<Rightarrow> Inl not_null_violation
      | Some u \<Rightarrow>
          if list_ex (\<lambda>m. pm_project_id m = pi_project_id invitation_record \<and> pm_user_id m = u) ms
          then Inr (map (\<lambda>m. if pm_project_id m = pi_project_id invitation_record
                                  \<and> pm_user_id m = u
                               then m\<lparr>pm_joined_at := Some now,
                                      pm_role := pi_role invitation_record,
                                      pm_updated_at := now\<rparr>
                               else m) ms)
          else if list_ex (\<lambda>m. pm_id m = new_member_id) ms then Inl unique_violation
          else Inr (ms @
             [\<lparr>pm_id = new_member_id, pm_project_id = pi_project_id invitation_record,
               pm_user_id = u, pm_role = pi_role invitation_record,
               pm_invited_by = pi_invited_by invitation_record, pm_invited_at = now,
               pm_joined_at = Some now, pm_created_at = now, pm_updated_at = now\<rparr>]))"

definition accept_invitation ::
  "uuid option \<Rightarrow> timestamptz \<Rightarrow> uuid \<Rightarrow> uuid \<Rightarrow> db \<Rightarrow> db_error + (accept_json \<times> db)" where
  "accept_invitation uid now new_member_id invitation_token d =
     (case select_invitation invitation_token now d of
        None \<Rightarrow> Inr (\<lparr>success = False, project_id = None,
                        error = Some ''Invalid or expired invitation''\<rparr>, d)
      | Some invitation_record \<Rightarrow>
          if sql_neq (get_current_user_email uid d) (Some (pi_email invitation_record))
               = Some True
          then Inr (\<lparr>success = False, project_id = None,
                      error = Some ''Email does not match invitation''\<rparr>, d)
          else (case upsert_member uid now new_member_id invitation_record (project_members d) of
                 Inl e \<Rightarrow> Inl e
               | Inr ms \<Rightarrow>
                   Inr (\<lparr>success = True, project_id = Some (pi_project_id invitation_record),
                          error = None\<rparr>,
                        d\<lparr>project_members := ms,
                          project_invitations :=
                            map (\<lambda>i. if pi_id i = pi_id invitation_record
                                      then i\<lparr>pi_accepted_at := Some now\<rparr> else i)
                              (project_invitations d)\<rparr>)))"

section \<open>Table constraints and sequences of statements\<close>

text \<open>
  \<open>UNIQUE(project_id, user_id)\<close> on \<open>project_members\<close> and \<open>UNIQUE(project_id, email)\<close> on
  \<open>project_invitations\<close>, as predicates on the database.
\<close>

definition members_unique :: "db \<Rightarrow> bool" where
  "members_unique d =
     distinct (map (\<lambda>m. (pm_project_id m, pm_user_id m)) (project_members d))"

definition invitations_unique :: "db \<Rightarrow> bool" where
  "invitations_unique d =
     distinct (map (\<lambda>i. (pi_project_id i, pi_email i)) (project_invitations d))"

definition pending_invitations_for :: "db \<Rightarrow> uuid \<Rightarrow> string \<Rightarrow> project_invitations_row list" where
  "pending_invitations_for d projectId email =
     filter (\<lambda>i. pi_project_id i = projectId \<and> pi_email i = email \<and> pi_accepted_at i = None)
       (project_invitations d)"

text \<open>
  The statements the application sends, one constructor each. Every statement is atomic;
  the statements of different requests may interleave in any order, so a history of the
  database is a list of statements. A statement that fails changes nothing.
\<close>

datatype statement =
    Delete_pending_invitations "uuid option" uuid string
  | Insert_invitation "uuid option" timestamptz uuid uuid uuid string member_role uuid
  | Delete_invitation "uuid option" uuid
  | Rpc_accept_invitation "uuid option" timestamptz uuid uuid
  | Delete_member "uuid option" uuid
  | Update_member_role "uuid option" timestamptz uuid member_role
  | Insert_project "uuid option" timestamptz uuid uuid string "string option" uuid

fun execute :: "statement \<Rightarrow> db \<Rightarrow> db" where
  "execute (Delete_pending_invitations uid projectId email) d =
     delete_invitations uid
       (\<lambda>i. pi_project_id i = projectId \<and> pi_email i = email \<and> pi_accepted_at i = None) d"
| "execute (Insert_invitation uid now new_id new_token projectId email role invited_by) d =
     (case insert_invitation uid
             (new_invitation now new_id new_token projectId email role invited_by) d of
        Inl e \<Rightarrow> d | Inr d' \<Rightarrow> d')"
| "execute (Delete_invitation uid invitationId) d =
     delete_invitations uid (\<lambda>i. pi_id i = invitationId) d"
| "execute (Rpc_accept_invitation uid now new_member_id invitation_token) d =
     (case accept_invitation uid now new_member_id invitation_token d of
        Inl e \<Rightarrow> d | Inr (r, d') \<Rightarrow> d')"
| "execute (Delete_member uid memberId) d = delete_member uid memberId d"
| "execute (Update_member_role uid now memberId newRole) d =
     update_member_role uid now memberId newRole d"
| "execute (Insert_project uid now new_id new_member_id project_name project_description owner_id) d =
     (case insert_project uid now new_id new_member_id project_name project_description owner_id d of
        Inl e \<Rightarrow> d | Inr (NEW, d') \<Rightarrow> d')"

fun run :: "statement list \<Rightarrow> db \<Rightarrow> db" where
  "run [] d = d"
| "run (s # ss) d = run ss (execute s d)"

section \<open>An example database\<close>

text \<open>
  Project 10 "Alpha" is owned by user 1; user 3 is an accepted contributor. There is a
  pending invitation for \<open>bob@x.com\<close>, an accepted one for \<open>carol@x.com\<close> and an expired
  one for \<open>dave@x.com\<close>. User 4 signed up as \<open>Bob@X.com\<close>; user 6 belongs to no project.
  User 7 has a row in \<open>auth.users\<close> without an e-mail; user 8 has no row there.
\<close>

definition example_db :: db where
  "example_db =
     \<lparr>projects =
        [\<lparr>p_id = 10, p_name = ''Alpha'', p_description = None, p_owner_id = 1,
          p_created_at = 0, p_updated_at = 0\<rparr>],
      project_members =
        [\<lparr>pm_id = 20, pm_project_id = 10, pm_user_id = 1, pm_role = Owner,
          pm_invited_by = 1, pm_invited_at = 0, pm_joined_at = Some 0,
          pm_created_at = 0, pm_updated_at = 0\<rparr>,
         \<lparr>pm_id = 21, pm_project_id = 10, pm_user_id = 3, pm_role = Contributor,
          pm_invited_by = 1, pm_invited_at = 5, pm_joined_at = Some 5,
          pm_created_at = 5, pm_updated_at = 5\<rparr>],
      project_invitations =
        [\<lparr>pi_id = 30, pi_project_id = 10, pi_email = ''bob@x.com'', pi_role = Contributor,
          pi_invited_by = 1, pi_token = 40, pi_expires_at = 1000, pi_accepted_at = None,
          pi_created_at = 10\<rparr>,
         \<lparr>pi_id = 31, pi_project_id = 10, pi_email = ''carol@x.com'', pi_role = Contributor,
          pi_invited_by = 1, pi_token = 41, pi_expires_at = 1000, pi_accepted_at = Some 20,
          pi_created_at = 10\<rparr>,
         \<lparr>pi_id = 32, pi_project_id = 10, pi_email = ''dave@x.com'', pi_role = Owner,
          pi_invited_by = 1, pi_token = 42, pi_expires_at = 50, pi_accepted_at = None,
          pi_created_at = 10\<rparr>],
      auth_users =
        [(1, Some ''olga@x.com''), (2, Some ''bob@x.com''), (3, Some ''mia@x.com''),
         (4, Some ''Bob@X.com''), (6, Some ''eve@x.com''), (7, None)]\<rparr>"

definition bob_invitation :: project_invitations_row where
  "bob_invitation =
     \<lparr>pi_id = 30, pi_project_id = 10, pi_email = ''bob@x.com'', pi_role = Contributor,
      pi_invited_by = 1, pi_token = 40, pi_expires_at = 1000, pi_accepted_at = None,
      pi_created_at = 10\<rparr>"

definition carol_invitation :: project_invitations_row where
  "carol_invitation =
     \<lparr>pi_id = 31, pi_project_id = 10, pi_email = ''carol@x.com'', pi_role = Contributor,
      pi_invited_by = 1, pi_token = 41, pi_expires_at = 1000, pi_accepted_at = Some 20,
      pi_created_at = 10\<rparr>"

definition dave_invitation :: project_invitations_row where
  "dave_invitation =
     \<lparr>pi_id = 32, pi_project_id = 10, pi_email = ''dave@x.com'', pi_role = Owner,
      pi_invited_by = 1, pi_token = 42, pi_expires_at = 50, pi_accepted_at = None,
      pi_created_at = 10\<rparr>"

definition owner_membership :: project_members_row where
  "owner_membership =
     \<lparr>pm_id = 20, pm_project_id = 10, pm_user_id = 1, pm_role = Owner,
      pm_invited_by = 1, pm_invited_at = 0, pm_joined_at = Some 0,
      pm_created_at = 0, pm_updated_at = 0\<rparr>"

definition mia_membership :: project_members_row where
  "mia_membership =
     \<lparr>pm_id = 21, pm_project_id = 10, pm_user_id = 3, pm_role = Contributor,
      pm_invited_by = 1, pm_invited_at = 5, pm_joined_at = Some 5,
      pm_created_at = 5, pm_updated_at = 5\<rparr>"

section \<open>Lookups in lists\<close>

lemma find_the_only:
  assumes "x \<in> set xs" and "P x" and "\<forall>y\<in>set xs. P y \<longrightarrow> y = x"
  shows "find P xs = Some x"
  using assms
proof (induction xs)
  case Nil
  then show ?case by simp
next
  case (Cons a xs)
  show ?case
  proof (cases "P a")
    case True
    with Cons.prems(3) have "a = x" by simp
    with True show ?thesis by simp
  next
    case False
    with Cons.prems(1,2) have "x \<in> set xs" by auto
    moreover from Cons.prems(3) have "\<forall>y\<in>set xs. P y \<longrightarrow> y = x" by simp
    ultimately have "find P xs = Some x" using Cons.IH Cons.prems(2) by blast
    with False show ?thesis by simp
  qed
qed

lemma find_Some_holds: "find P xs = Some x \<Longrightarrow> P x \<and> x \<in> set xs"
  by (induction xs) (simp_all split: if_splits)

lemma select_invitation_the_only:
  assumes "invitation \<in> set (project_invitations d)"
      and "pi_accepted_at invitation = None" and "now < pi_expires_at invitation"
      and "\<forall>i\<in>set (project_invitations d). pi_token i = pi_token invitation \<longrightarrow> i = invitation"
  shows "select_invitation (pi_token invitation) now d = Some invitation"
  unfolding select_invitation_def
proof (rule find_the_only)
  show "invitation \<in> set (project_invitations d)" by (rule assms(1))
  show "pi_token invitation = pi_token invitation \<and> now < pi_expires_at invitation
          \<and> pi_accepted_at invitation = None"
    using assms(2,3) by simp
  show "\<forall>y\<in>set (project_invitations d).
          pi_token y = pi_token invitation \<and> now < pi_expires_at y \<and> pi_accepted_at y = None
            \<longrightarrow> y = invitation"
    using assms(4) by blast
qed

lemma select_invitation_Some:
  assumes "select_invitation t now d = Some invitation"
  shows "invitation \<in> set (project_invitations d) \<and> pi_token invitation = t
           \<and> now < pi_expires_at invitation \<and> pi_accepted_at invitation = None"
  using find_Some_holds[OF assms[unfolded select_invitation_def]] by simp

lemma single_row:
  "(case xs of [] \<Rightarrow> None | [i] \<Rightarrow> Some i | i # j # js \<Rightarrow> None) = Some x \<Longrightarrow> xs = [x]"
  by (cases xs; cases "tl xs") auto

section \<open>The membership upsert of \<open>accept_invitation\<close>\<close>

lemma upsert_member_keys:
  assumes "upsert_member (Some u) now new_member_id invitation ms = Inr ms'"
      and "distinct (map (\<lambda>m. (pm_project_id m, pm_user_id m)) ms)"
  shows "distinct (map (\<lambda>m. (pm_project_id m, pm_user_id m)) ms')"
proof (cases "list_ex (\<lambda>m. pm_project_id m = pi_project_id invitation \<and> pm_user_id m = u) ms")
  case True
  define f where "f = (\<lambda>m::project_members_row. if pm_project_id m = pi_project_id invitation \<and> pm_user_id m = u
                 then m\<lparr>pm_joined_at := Some now, pm_role := pi_role invitation,
                        pm_updated_at := now\<rparr>
                 else m)"
  have ms': "ms' = map f ms"
    using assms(1) True by (simp add: upsert_member_def f_def)
  have keys: "map (\<lambda>m. (pm_project_id m, pm_user_id m)) (map f ms)
          = map (\<lambda>m. (pm_project_id m, pm_user_id m)) ms"
    by (induction ms) (simp_all add: f_def)
  show ?thesis unfolding ms' keys by (rule assms(2))
next
  case False
  then have ms': "ms' = ms @
             [\<lparr>pm_id = new_member_id, pm_project_id = pi_project_id invitation,
               pm_user_id = u, pm_role = pi_role invitation,
               pm_invited_by = pi_invited_by invitation, pm_invited_at = now,
               pm_joined_at = Some now, pm_created_at = now, pm_updated_at = now\<rparr>]"
    using assms(1) by (simp add: upsert_member_def split: if_splits)
  have "(pi_project_id invitation, u) \<notin> set (map (\<lambda>m. (pm_project_id m, pm_user_id m)) ms)"
    using False by (auto simp: list_ex_iff)
  with assms(2) ms' show ?thesis by simp
qed

lemma upsert_member_succeeds:
  assumes "new_member_id \<notin> pm_id ` set ms"
  shows "\<exists>ms'. upsert_member (Some u) now new_member_id invitation ms = Inr ms'
           \<and> (\<exists>m\<in>set ms'. pm_project_id m = pi_project_id invitation \<and> pm_user_id m = u
                  \<and> pm_role m = pi_role invitation \<and> pm_joined_at m = Some now)"
proof (cases "list_ex (\<lambda>m. pm_project_id m = pi_project_id invitation \<and> pm_user_id m = u) ms")
  case True
  define f where "f = (\<lambda>m::project_members_row. if pm_project_id m = pi_project_id invitation \<and> pm_user_id m = u
                 then m\<lparr>pm_joined_at := Some now, pm_role := pi_role invitation,
                        pm_updated_at := now\<rparr>
                 else m)"
  have res: "upsert_member (Some u) now new_member_id invitation ms = Inr (map f ms)"
    using True by (simp add: upsert_member_def f_def)
  from True obtain m where m: "m \<in> set ms" "pm_project_id m = pi_project_id invitation"
      "pm_user_id m = u"
    unfolding list_ex_iff by blast
  have "f m \<in> set (map f ms)" using m(1) by simp
  moreover have "pm_project_id (f m) = pi_project_id invitation \<and> pm_user_id (f m) = u
      \<and> pm_role (f m) = pi_role invitation \<and> pm_joined_at (f m) = Some now"
    using m(2,3) by (simp add: f_def)
  ultimately show ?thesis using res by blast
next
  case False
  have nid: "\<not> list_ex (\<lambda>m. pm_id m = new_member_id) ms"
    using assms unfolding list_ex_iff by blast
  with False show ?thesis
    by (simp add: upsert_member_def)
qed

subsection \<open>Callers without a session or without an e-mail\<close>

text \<open>
  For a caller whose e-mail is \<open>NULL\<close> the comparison of \<open>accept_invitation\<close> is \<open>NULL\<close> and
  the branch "Email does not match invitation" is not taken. Without a session the insert
  into \<open>project_members\<close> then violates \<open>NOT NULL\<close> on \<open>user_id\<close>, the call raises and the
  transaction is rolled back.
\<close>

lemma sql_neq_null: "sql_neq None b \<noteq> Some True"
  by (simp add: sql_neq_def)

lemma accept_invitation_without_session:
  assumes "select_invitation invitation_token now d = Some invitation"
  shows "accept_invitation None now new_member_id invitation_token d = Inl not_null_violation"
  using assms
  by (simp add: accept_invitation_def get_current_user_email_def sql_neq_def upsert_member_def)

section \<open>Accepting an invitation\<close>

text \<open>
  Claim C1. Let an invitation be pending (\<open>accepted_at\<close> is \<open>NULL\<close>), unexpired at \<open>now\<close>,
  and the only row carrying its token, and let the caller's e-mail be the invitation's
  e-mail. Then the first call of \<open>accept_invitation\<close> with the token returns
  \<open>success = true\<close> with the invitation's project; afterwards the caller has a membership
  of that project whose role is the invitation's role and whose \<open>joined_at\<close> is set, and
  there is still at most one membership per project and user. Every later call with the
  same token, by anyone and at any time, returns "Invalid or expired invitation" and
  leaves the database as it is. The new membership's id comes from \<open>gen_random_uuid()\<close>
  and is taken to be unused, and \<open>UNIQUE(project_id, user_id)\<close> holds beforehand.
\<close>

theorem accept_invitation_once:
  assumes inv_in: "invitation \<in> set (project_invitations d)"
      and pending: "pi_accepted_at invitation = None"
      and unexpired: "now < pi_expires_at invitation"
      and token: "\<forall>i\<in>set (project_invitations d). pi_token i = pi_token invitation \<longrightarrow> i = invitation"
      and ident: "get_current_user_email (Some u) d = Some (pi_email invitation)"
      and uniq: "members_unique d"
      and fresh: "new_member_id \<notin> pm_id ` set (project_members d)"
  shows "\<exists>d'. accept_invitation (Some u) now new_member_id (pi_token invitation) d =
                Inr (\<lparr>success = True, project_id = Some (pi_project_id invitation),
                      error = None\<rparr>, d')
           \<and> (\<exists>m\<in>set (project_members d').
                  pm_project_id m = pi_project_id invitation \<and> pm_user_id m = u
                  \<and> pm_role m = pi_role invitation \<and> pm_joined_at m = Some now)
           \<and> members_unique d'
           \<and> (\<forall>uid2 now2 id2.
                  accept_invitation uid2 now2 id2 (pi_token invitation) d' =
                    Inr (\<lparr>success = False, project_id = None,
                          error = Some ''Invalid or expired invitation''\<rparr>, d'))"
proof -
  from upsert_member_succeeds[OF fresh] obtain ms'
    where up: "upsert_member (Some u) now new_member_id invitation (project_members d) = Inr ms'"
      and mem: "\<exists>m\<in>set ms'. pm_project_id m = pi_project_id invitation \<and> pm_user_id m = u
                  \<and> pm_role m = pi_role invitation \<and> pm_joined_at m = Some now"
    by blast
  define mark where "mark = (\<lambda>i::project_invitations_row.
      if pi_id i = pi_id invitation then i\<lparr>pi_accepted_at := Some now\<rparr> else i)"
  define d' where "d' = d\<lparr>project_members := ms',
      project_invitations := map mark (project_invitations d)\<rparr>"
  have sel: "select_invitation (pi_token invitation) now d = Some invitation"
    by (rule select_invitation_the_only[OF inv_in pending unexpired token])
  have first: "accept_invitation (Some u) now new_member_id (pi_token invitation) d =
                Inr (\<lparr>success = True, project_id = Some (pi_project_id invitation),
                      error = None\<rparr>, d')"
    by (simp add: accept_invitation_def sel ident sql_neq_def up d'_def mark_def)
  have members: "project_members d' = ms'" by (simp add: d'_def)
  have uniq': "members_unique d'"
    unfolding members_unique_def members
    using upsert_member_keys[OF up] uniq unfolding members_unique_def by blast
  have none: "select_invitation (pi_token invitation) now2 d' = None" for now2
  proof -
    have "\<not> (pi_token x = pi_token invitation \<and> now2 < pi_expires_at x \<and> pi_accepted_at x = None)"
      if "x \<in> set (project_invitations d')" for x
    proof -
      from that obtain i where i: "i \<in> set (project_invitations d)" and x: "x = mark i"
        by (auto simp: d'_def)
      show ?thesis
      proof (cases "pi_token i = pi_token invitation")
        case True
        with token i have "i = invitation" by blast
        then have "pi_accepted_at x = Some now" by (simp add: x mark_def)
        then show ?thesis by simp
      next
        case False
        have "pi_token x = pi_token i" by (simp add: x mark_def)
        with False show ?thesis by simp
      qed
    qed
    then show ?thesis unfolding select_invitation_def find_None_iff by blast
  qed
  have second: "accept_invitation uid2 now2 id2 (pi_token invitation) d' =
                    Inr (\<lparr>success = False, project_id = None,
                          error = Some ''Invalid or expired invitation''\<rparr>, d')"
    for uid2 now2 id2
    by (simp add: accept_invitation_def none)
  from first mem uniq' second members show ?thesis by blast
qed

theorem accept_invitation_once_witness:
  "bob_invitation \<in> set (project_invitations example_db)
   \<and> pi_accepted_at bob_invitation = None
   \<and> 100 < pi_expires_at bob_invitation
   \<and> list_all (\<lambda>i. pi_token i = pi_token bob_invitation \<longrightarrow> i = bob_invitation)
         (project_invitations example_db)
   \<and> get_current_user_email (Some 2) example_db = Some (pi_email bob_invitation)
   \<and> members_unique example_db
   \<and> 22 \<notin> pm_id ` set (project_members example_db)
   \<and> (\<exists>d'. accept_invitation (Some 2) 100 22 (pi_token bob_invitation) example_db =
                Inr (\<lparr>success = True, project_id = Some (pi_project_id bob_invitation),
                      error = None\<rparr>, d')
           \<and> (\<exists>m\<in>set (project_members d').
                  pm_project_id m = pi_project_id bob_invitation \<and> pm_user_id m = 2
                  \<and> pm_role m = pi_role bob_invitation \<and> pm_joined_at m = Some 100)
           \<and> members_unique d'
           \<and> (\<forall>uid2 now2 id2.
                  accept_invitation uid2 now2 id2 (pi_token bob_invitation) d' =
                    Inr (\<lparr>success = False, project_id = None,
                          error = Some ''Invalid or expired invitation''\<rparr>, d')))"
proof -
  have h1: "bob_invitation \<in> set (project_invitations example_db)"
    by (simp add: example_db_def bob_invitation_def)
  have h2: "pi_accepted_at bob_invitation = None"
    by (simp add: bob_invitation_def)
  have h3: "100 < pi_expires_at bob_invitation"
    by (simp add: bob_invitation_def)
  have h4: "\<forall>i\<in>set (project_invitations example_db).
          pi_token i = pi_token bob_invitation \<longrightarrow> i = bob_invitation"
    by (simp add: example_db_def bob_invitation_def)
  have h5: "get_current_user_email (Some 2) example_db = Some (pi_email bob_invitation)"
    by (simp add: get_current_user_email_def example_db_def bob_invitation_def)
  have h6: "members_unique example_db"
    by (simp add: members_unique_def example_db_def)
  have h7: "22 \<notin> pm_id ` set (project_members example_db)"
    by (simp add: example_db_def)
  have h4': "list_all (\<lambda>i. pi_token i = pi_token bob_invitation \<longrightarrow> i = bob_invitation)
         (project_invitations example_db)"
    unfolding list_all_iff by (rule h4)
  note concl = accept_invitation_once[OF h1 h2 h3 h4 h5 h6 h7]
  from h1 h2 h3 h4' h5 h6 h7 concl show ?thesis by (intro conjI)
qed

text \<open>
  A caller that has an e-mail different from the e-mail of the invitation found by the
  token gets \<open>success = false\<close> with the error "Email does not match invitation", and the
  database is returned unchanged.
\<close>

lemma accept_invitation_email_mismatch:
  assumes "select_invitation invitation_token now d = Some invitation"
      and "get_current_user_email uid d = Some e"
      and "e \<noteq> pi_email invitation"
  shows "accept_invitation uid now new_member_id invitation_token d =
           Inr (\<lparr>success = False, project_id = None,
                 error = Some ''Email does not match invitation''\<rparr>, d)"
  using assms by (simp add: accept_invitation_def sql_neq_def)

text \<open>
  Claim C2 asks that every call by an identity whose e-mail does not equal the
  invitation's e-mail fails with the e-mail mismatch and changes nothing. The procedure
  does not do so for a signed-in caller without an e-mail. User 7 has no e-mail and user 8
  has no row in \<open>auth.users\<close>, so for both the caller's e-mail is \<open>NULL\<close>; the comparison with
  \<open>bob@x.com\<close> is \<open>NULL\<close>, the branch is skipped, and \<open>accept_invitation\<close> with Bob's token
  returns \<open>success = true\<close>, inserts a membership for the caller and marks the invitation
  accepted, so that Bob can no longer accept it.
\<close>

theorem accept_invitation_null_email_accepted:
  "get_current_user_email (Some 7) example_db = None
   \<and> get_current_user_email (Some 8) example_db = None
   \<and> select_invitation 40 100 example_db = Some bob_invitation
   \<and> accept_invitation (Some 7) 100 22 40 example_db =
        Inr (\<lparr>success = True, project_id = Some 10, error = None\<rparr>,
             example_db\<lparr>project_members :=
                 [owner_membership, mia_membership,
                  \<lparr>pm_id = 22, pm_project_id = 10, pm_user_id = 7, pm_role = Contributor,
                    pm_invited_by = 1, pm_invited_at = 100, pm_joined_at = Some 100,
                    pm_created_at = 100, pm_updated_at = 100\<rparr>],
               project_invitations :=
                 [bob_invitation\<lparr>pi_accepted_at := Some 100\<rparr>, carol_invitation,
                  dave_invitation]\<rparr>)
   \<and> accept_invitation (Some 8) 100 22 40 example_db =
        Inr (\<lparr>success = True, project_id = Some 10, error = None\<rparr>,
             example_db\<lparr>project_members :=
                 [owner_membership, mia_membership,
                  \<lparr>pm_id = 22, pm_project_id = 10, pm_user_id = 8, pm_role = Contributor,
                    pm_invited_by = 1, pm_invited_at = 100, pm_joined_at = Some 100,
                    pm_created_at = 100, pm_updated_at = 100\<rparr>],
               project_invitations :=
                 [bob_invitation\<lparr>pi_accepted_at := Some 100\<rparr>, carol_invitation,
                  dave_invitation]\<rparr>)
   \<and> select_invitation 40 101
         (example_db\<lparr>project_invitations :=
            [bob_invitation\<lparr>pi_accepted_at := Some 100\<rparr>, carol_invitation,
             dave_invitation]\<rparr>) = None"
proof -
  have e7: "get_current_user_email (Some 7) example_db = None"
    by (simp add: get_current_user_email_def example_db_def)
  have e8: "get_current_user_email (Some 8) example_db = None"
    by (simp add: get_current_user_email_def example_db_def)
  have sel: "select_invitation 40 100 example_db = Some bob_invitation"
    by (simp add: select_invitation_def example_db_def bob_invitation_def)
  have a7: "accept_invitation (Some 7) 100 22 40 example_db =
        Inr (\<lparr>success = True, project_id = Some 10, error = None\<rparr>,
             example_db\<lparr>project_members :=
                 [owner_membership, mia_membership,
                  \<lparr>pm_id = 22, pm_project_id = 10, pm_user_id = 7, pm_role = Contributor,
                    pm_invited_by = 1, pm_invited_at = 100, pm_joined_at = Some 100,
                    pm_created_at = 100, pm_updated_at = 100\<rparr>],
               project_invitations :=
                 [bob_invitation\<lparr>pi_accepted_at := Some 100\<rparr>, carol_invitation,
                  dave_invitation]\<rparr>)"
    by (simp add: accept_invitation_def sel e7 sql_neq_def upsert_member_def)
       (simp add: example_db_def bob_invitation_def carol_invitation_def dave_invitation_def
          owner_membership_def mia_membership_def)
  have a8: "accept_invitation (Some 8) 100 22 40 example_db =
        Inr (\<lparr>success = True, project_id = Some 10, error = None\<rparr>,
             example_db\<lparr>project_members :=
                 [owner_membership, mia_membership,
                  \<lparr>pm_id = 22, pm_project_id = 10, pm_user_id = 8, pm_role = Contributor,
                    pm_invited_by = 1, pm_invited_at = 100, pm_joined_at = Some 100,
                    pm_created_at = 100, pm_updated_at = 100\<rparr>],
               project_invitations :=
                 [bob_invitation\<lparr>pi_accepted_at := Some 100\<rparr>, carol_invitation,
                  dave_invitation]\<rparr>)"
    by (simp add: accept_invitation_def sel e8 sql_neq_def upsert_member_def)
       (simp add: example_db_def bob_invitation_def carol_invitation_def dave_invitation_def
          owner_membership_def mia_membership_def)
  have gone: "select_invitation 40 101
         (example_db\<lparr>project_invitations :=
            [bob_invitation\<lparr>pi_accepted_at := Some 100\<rparr>, carol_invitation,
             dave_invitation]\<rparr>) = None"
    by (simp add: select_invitation_def bob_invitation_def carol_invitation_def
          dave_invitation_def)
  from e7 e8 sel a7 a8 gone show ?thesis by (intro conjI)
qed

text \<open>
  Claim C3. An invitation with \<open>expires_at <= now\<close> is not in the pending invitations
  listed by \<open>fetchTeamData\<close>, is not returned by \<open>fetchInvitation\<close> of the acceptance
  page, and is not the row selected by \<open>accept_invitation\<close>, whether or not its
  \<open>accepted_at\<close> is \<open>NULL\<close>; when every invitation carrying the token is expired,
  \<open>accept_invitation\<close> answers "Invalid or expired invitation" and changes nothing.
\<close>

theorem expired_invitation_not_found:
  assumes "pi_expires_at invitation \<le> now"
  shows "invitation \<notin> set (fetchPendingInvitations uid now projectId d)
       \<and> fetchInvitation uid now token d \<noteq> Some invitation
       \<and> select_invitation token now d \<noteq> Some invitation
       \<and> ((\<forall>i\<in>set (project_invitations d). pi_token i = token \<longrightarrow> pi_expires_at i \<le> now)
            \<longrightarrow> accept_invitation uid now new_member_id token d =
                  Inr (\<lparr>success = False, project_id = None,
                        error = Some ''Invalid or expired invitation''\<rparr>, d))"
proof (intro conjI impI)
  show "invitation \<notin> set (fetchPendingInvitations uid now projectId d)"
    using assms by (simp add: fetchPendingInvitations_def)
  show "fetchInvitation uid now token d \<noteq> Some invitation"
  proof
    assume "fetchInvitation uid now token d = Some invitation"
    then have "filter (\<lambda>i. invitations_select_policy uid d i \<and> pi_token i = token
                       \<and> pi_accepted_at i = None \<and> pi_expires_at i > now)
                 (project_invitations d) = [invitation]"
      unfolding fetchInvitation_def by (rule single_row)
    then have "invitation \<in> set (filter (\<lambda>i. invitations_select_policy uid d i \<and> pi_token i = token
                       \<and> pi_accepted_at i = None \<and> pi_expires_at i > now)
                 (project_invitations d))"
      by simp
    then have "pi_expires_at invitation > now" by simp
    with assms show False by simp
  qed
  show "select_invitation token now d \<noteq> Some invitation"
  proof
    assume "select_invitation token now d = Some invitation"
    from select_invitation_Some[OF this] assms show False by simp
  qed
next
  assume all: "\<forall>i\<in>set (project_invitations d). pi_token i = token \<longrightarrow> pi_expires_at i \<le> now"
  have "select_invitation token now d = None"
    unfolding select_invitation_def find_None_iff
    using all by fastforce
  then show "accept_invitation uid now new_member_id token d =
                  Inr (\<lparr>success = False, project_id = None,
                        error = Some ''Invalid or expired invitation''\<rparr>, d)"
    by (simp add: accept_invitation_def)
qed

theorem expired_invitation_not_found_witness:
  "pi_expires_at dave_invitation \<le> 100
   \<and> dave_invitation \<in> set (project_invitations example_db)
   \<and> pi_accepted_at dave_invitation = None
   \<and> list_all (\<lambda>i. pi_token i = 42 \<longrightarrow> pi_expires_at i \<le> 100)
         (project_invitations example_db)
   \<and> dave_invitation \<notin> set (fetchPendingInvitations (Some 1) 100 10 example_db)
   \<and> fetchInvitation (Some 1) 100 42 example_db \<noteq> Some dave_invitation
   \<and> select_invitation 42 100 example_db \<noteq> Some dave_invitation
   \<and> accept_invitation (Some 1) 100 22 42 example_db =
         Inr (\<lparr>success = False, project_id = None,
               error = Some ''Invalid or expired invitation''\<rparr>, example_db)"
proof -
  have h1: "pi_expires_at dave_invitation \<le> 100"
    by (simp add: dave_invitation_def)
  have h2: "dave_invitation \<in> set (project_invitations example_db)"
    by (simp add: example_db_def dave_invitation_def)
  have h3: "pi_accepted_at dave_invitation = None"
    by (simp add: dave_invitation_def)
  have h4: "\<forall>i\<in>set (project_invitations example_db). pi_token i = 42 \<longrightarrow> pi_expires_at i \<le> 100"
    by (simp add: example_db_def)
  have h4': "list_all (\<lambda>i. pi_token i = 42 \<longrightarrow> pi_expires_at i \<le> 100)
         (project_invitations example_db)"
    unfolding list_all_iff by (rule h4)
  from expired_invitation_not_found[OF h1, of "Some 1" 10 example_db 42 22] h1 h2 h3 h4 h4'
  show ?thesis by simp
qed

section \<open>Creating a project\<close>

lemma insert_project_succeeds:
  assumes "uid = Some owner_id"
      and "new_id \<notin> p_id ` set (projects d)"
      and "new_member_id \<notin> pm_id ` set (project_members d)"
      and "new_id \<notin> pm_project_id ` set (project_members d)"
  shows "\<exists>P d'. insert_project uid now new_id new_member_id project_name project_description
                  owner_id d = Inr (P, d')"
proof -
  have a: "\<not> list_ex (\<lambda>p. p_id p = new_id) (projects d)"
    using assms(2) unfolding list_ex_iff by blast
  have b: "\<not> list_ex (\<lambda>m. pm_id m = new_member_id) (project_members d)"
    using assms(3) unfolding list_ex_iff by blast
  have c: "\<not> list_ex (\<lambda>m. pm_project_id m = new_id \<and> pm_user_id m = owner_id) (project_members d)"
    using assms(4) unfolding list_ex_iff by blast
  show ?thesis
    using assms(1) a b c
    by (simp add: insert_project_def Let_def add_owner_as_member_def projects_insert_check_def)
qed

text \<open>
  Claim C6. Whenever the insert of a project \<open>P\<close> completes, the trigger
  \<open>add_owner_as_member\<close> has run: \<open>is_project_owner\<close> holds for \<open>P\<close> and its owner, and
  \<open>project_members\<close> has a row for \<open>P\<close> and the owner with role \<open>owner\<close> and \<open>joined_at\<close> set to
  the time of the insert. (By \<open>insert_project_succeeds\<close> the insert does complete when the
  caller is the owner and the generated ids are unused.)
\<close>

theorem insert_project_enrolls_owner:
  assumes "insert_project uid now new_id new_member_id project_name project_description
             owner_id d = Inr (P, d')"
  shows "p_owner_id P = owner_id
       \<and> P \<in> set (projects d')
       \<and> is_project_owner (Some (p_owner_id P)) d' (p_id P)
       \<and> (\<exists>m\<in>set (project_members d').
             pm_project_id m = p_id P \<and> pm_user_id m = p_owner_id P
             \<and> pm_role m = Owner \<and> pm_joined_at m = Some now)"
proof -
  define NEW where "NEW = \<lparr>p_id = new_id, p_name = project_name,
      p_description = project_description, p_owner_id = owner_id,
      p_created_at = now, p_updated_at = now\<rparr>"
  define row where "row = \<lparr>pm_id = new_member_id, pm_project_id = p_id NEW,
      pm_user_id = p_owner_id NEW, pm_role = Owner, pm_invited_by = p_owner_id NEW,
      pm_invited_at = now, pm_joined_at = Some now, pm_created_at = now,
      pm_updated_at = now\<rparr>"
  from assms have trig: "add_owner_as_member now new_member_id NEW (d\<lparr>projects := projects d @ [NEW]\<rparr>)
      = Inr d'" and P: "P = NEW"
    by (simp_all add: insert_project_def Let_def NEW_def split: if_splits sum.splits)
  from trig have d': "d' = d\<lparr>projects := projects d @ [NEW],
      project_members := project_members d @ [row]\<rparr>"
    by (simp add: add_owner_as_member_def row_def split: if_splits)
  have 1: "p_owner_id P = owner_id" by (simp add: P NEW_def)
  have 2: "P \<in> set (projects d')" by (simp add: P d')
  have 3: "is_project_owner (Some (p_owner_id P)) d' (p_id P)"
    unfolding is_project_owner_def list_ex_iff using 2 by blast
  have "row \<in> set (project_members d')" by (simp add: d')
  moreover have "pm_project_id row = p_id P \<and> pm_user_id row = p_owner_id P
             \<and> pm_role row = Owner \<and> pm_joined_at row = Some now"
    by (simp add: row_def P)
  ultimately have 4: "\<exists>m\<in>set (project_members d').
             pm_project_id m = p_id P \<and> pm_user_id m = p_owner_id P
             \<and> pm_role m = Owner \<and> pm_joined_at m = Some now"
    by blast
  from 1 2 3 4 show ?thesis by blast
qed

theorem insert_project_enrolls_owner_witness:
  "\<exists>P d'. insert_project (Some 6) 100 11 23 ''Beta'' None 6 example_db = Inr (P, d')
     \<and> p_owner_id P = 6
     \<and> P \<in> set (projects d')
     \<and> is_project_owner (Some (p_owner_id P)) d' (p_id P)
     \<and> (\<exists>m\<in>set (project_members d').
             pm_project_id m = p_id P \<and> pm_user_id m = p_owner_id P
             \<and> pm_role m = Owner \<and> pm_joined_at m = Some 100)"
proof -
  have "\<exists>P d'. insert_project (Some 6) 100 11 23 ''Beta'' None 6 example_db = Inr (P, d')"
    by (simp add: insert_project_def Let_def add_owner_as_member_def projects_insert_check_def
          example_db_def)
  then obtain P d' where
    h: "insert_project (Some 6) 100 11 23 ''Beta'' None 6 example_db = Inr (P, d')"
    by blast
  from insert_project_enrolls_owner[OF h] h show ?thesis by blast
qed

section \<open>Removing a member\<close>

lemma same_key_same_row:
  assumes "distinct (map f xs)" and "x \<in> set xs" and "y \<in> set xs" and "f x = f y"
  shows "x = y"
proof -
  from assms(1) have "inj_on f (set xs)" by (simp add: distinct_map)
  then show ?thesis using assms(4,2,3) by (rule inj_onD)
qed




section \<open>Creating and revoking invitations\<close>

lemma delete_invitations_nothing:
  assumes "\<forall>i\<in>set (project_invitations d).
             \<not> (flt i \<and> invitations_select_policy uid d i \<and> invitations_delete_policy uid d i)"
  shows "delete_invitations uid flt d = d"
proof -
  have "filter (\<lambda>i. \<not> (flt i \<and> invitations_select_policy uid d i
                          \<and> invitations_delete_policy uid d i)) (project_invitations d)
          = project_invitations d"
    unfolding filter_id_conv using assms by blast
  then show ?thesis by (simp add: delete_invitations_def)
qed

lemma delete_invitations_authorized:
  assumes auth: "is_project_owner uid d projectId \<or> is_project_member uid d projectId"
      and flt: "\<forall>i. flt i \<longrightarrow> pi_project_id i = projectId"
  shows "delete_invitations uid flt d =
           d\<lparr>project_invitations := filter (\<lambda>i. \<not> flt i) (project_invitations d)\<rparr>"
proof -
  have "filter (\<lambda>i. \<not> (flt i \<and> invitations_select_policy uid d i
                          \<and> invitations_delete_policy uid d i)) (project_invitations d)
          = filter (\<lambda>i. \<not> flt i) (project_invitations d)"
  proof (rule filter_cong[OF refl])
    fix i assume "i \<in> set (project_invitations d)"
    show "(\<not> (flt i \<and> invitations_select_policy uid d i \<and> invitations_delete_policy uid d i))
            = (\<not> flt i)"
      using auth flt
      by (auto simp: invitations_select_policy_def invitations_delete_policy_def)
  qed
  then show ?thesis by (simp add: delete_invitations_def)
qed

lemma policies_ignore_invitations:
  "is_project_owner uid (d\<lparr>project_invitations := xs\<rparr>) p = is_project_owner uid d p"
  "is_project_member uid (d\<lparr>project_invitations := xs\<rparr>) p = is_project_member uid d p"
  by (simp_all add: is_project_owner_def is_project_member_def)

lemma handleInviteUser_creates:
  assumes auth: "is_project_owner uid d projectId \<or> is_project_member uid d projectId"
      and nonempty: "trim inviteEmail \<noteq> []"
      and fresh: "new_id \<notin> pi_id ` set (project_invitations d)"
      and noacc: "\<forall>i\<in>set (project_invitations d).
                    pi_project_id i = projectId \<and> pi_email i = toLowerCase (trim inviteEmail)
                      \<longrightarrow> pi_accepted_at i = None"
  shows "handleInviteUser uid now new_id new_token email_error projectId userId inviteEmail
           inviteRole d =
         (Some (if email_error then toast_warning else toast_invitation_sent inviteEmail),
          d\<lparr>project_invitations :=
              filter (\<lambda>i. \<not> (pi_project_id i = projectId
                              \<and> pi_email i = toLowerCase (trim inviteEmail)
                              \<and> pi_accepted_at i = None)) (project_invitations d)
              @ [new_invitation now new_id new_token projectId (toLowerCase (trim inviteEmail))
                   inviteRole userId]\<rparr>)"
proof -
  define email where "email = toLowerCase (trim inviteEmail)"
  define flt where "flt = (\<lambda>i::project_invitations_row. pi_project_id i = projectId \<and> pi_email i = email
                         \<and> pi_accepted_at i = None)"
  define row where "row = new_invitation now new_id new_token projectId email inviteRole userId"
  define d1 where "d1 = d\<lparr>project_invitations := filter (\<lambda>i. \<not> flt i) (project_invitations d)\<rparr>"
  have del: "delete_invitations uid flt d = d1"
    unfolding d1_def by (rule delete_invitations_authorized[OF auth]) (simp add: flt_def)
  have rowp: "pi_project_id row = projectId" "pi_id row = new_id" "pi_email row = email"
    by (simp_all add: row_def new_invitation_def)
  have auth1: "is_project_owner uid d1 projectId \<or> is_project_member uid d1 projectId"
    using auth by (simp add: d1_def policies_ignore_invitations)
  have chk: "invitations_insert_check uid d1 row \<and> invitations_select_policy uid d1 row"
    using auth1 by (auto simp: invitations_insert_check_def invitations_select_policy_def rowp)
  have rows1: "set (project_invitations d1) \<subseteq> set (project_invitations d)"
    by (auto simp: d1_def)
  have pk: "\<not> list_ex (\<lambda>i. pi_id i = pi_id row) (project_invitations d1)"
    unfolding list_ex_iff rowp using fresh rows1 by blast
  have "\<not> (pi_project_id i = projectId \<and> pi_email i = email)"
    if "i \<in> set (project_invitations d1)" for i
  proof
    assume k: "pi_project_id i = projectId \<and> pi_email i = email"
    from that have i: "i \<in> set (project_invitations d)" and nf: "\<not> flt i"
      by (simp_all add: d1_def)
    from noacc i k have "pi_accepted_at i = None" unfolding email_def by blast
    with k nf show False by (simp add: flt_def)
  qed
  then have uq: "\<not> list_ex (\<lambda>i. pi_project_id i = pi_project_id row \<and> pi_email i = pi_email row)
                    (project_invitations d1)"
    unfolding list_ex_iff rowp by blast
  have ins: "insert_invitation uid row d1 =
      Inr (d1\<lparr>project_invitations := project_invitations d1 @ [row]\<rparr>)"
    using chk pk uq by (simp add: insert_invitation_def)
  have "handleInviteUser uid now new_id new_token email_error projectId userId inviteEmail
           inviteRole d =
         (Some (if email_error then toast_warning else toast_invitation_sent inviteEmail),
          d1\<lparr>project_invitations := project_invitations d1 @ [row]\<rparr>)"
    using nonempty
    by (simp add: handleInviteUser_def Let_def del[unfolded flt_def email_def]
          ins[unfolded row_def email_def] row_def email_def)
  then show ?thesis by (simp add: d1_def flt_def email_def row_def)
qed

text \<open>
  Claim C4, as stated, fails: user 3 is an accepted contributor of project 10 and not its
  owner, yet \<open>handleInviteUser\<close> run by user 3 inserts an invitation and
  \<open>handleRevokeInvitation\<close> run by user 3 deletes one. The policies "Project members can
  create invitations" and "Project members can delete invitations" admit members.
\<close>

theorem member_creates_and_revokes_invitation:
  "is_project_member (Some 3) example_db 10
   \<and> \<not> is_project_owner (Some 3) example_db 10
   \<and> new_invitation 100 33 43 10 ''zoe@x.com'' Contributor 3
        \<in> set (project_invitations
              (snd (handleInviteUser (Some 3) 100 33 43 False 10 3 ''Zoe@x.com '' Contributor
                      example_db)))
   \<and> bob_invitation \<in> set (project_invitations example_db)
   \<and> bob_invitation
        \<notin> set (project_invitations (snd (handleRevokeInvitation (Some 3) 30 example_db)))"
proof -
  have m: "is_project_member (Some 3) example_db 10"
    by (simp add: is_project_member_def example_db_def)
  have o: "\<not> is_project_owner (Some 3) example_db 10"
    by (simp add: is_project_owner_def example_db_def)
  have t: "trim ''Zoe@x.com '' = ''Zoe@x.com''" by code_simp
  have l: "toLowerCase ''Zoe@x.com'' = ''zoe@x.com''" by code_simp
  have "handleInviteUser (Some 3) 100 33 43 False 10 3 ''Zoe@x.com '' Contributor example_db =
         (Some (toast_invitation_sent ''Zoe@x.com ''),
          example_db\<lparr>project_invitations := project_invitations example_db
              @ [new_invitation 100 33 43 10 ''zoe@x.com'' Contributor 3]\<rparr>)"
    using m o
    by (simp add: handleInviteUser_def Let_def t l delete_invitations_def insert_invitation_def
          invitations_insert_check_def invitations_select_policy_def
          invitations_delete_policy_def new_invitation_def example_db_def)
  then have c: "new_invitation 100 33 43 10 ''zoe@x.com'' Contributor 3
        \<in> set (project_invitations
              (snd (handleInviteUser (Some 3) 100 33 43 False 10 3 ''Zoe@x.com '' Contributor
                      example_db)))"
    by simp
  have b: "bob_invitation \<in> set (project_invitations example_db)"
    by (simp add: example_db_def bob_invitation_def)
  have r: "bob_invitation
        \<notin> set (project_invitations (snd (handleRevokeInvitation (Some 3) 30 example_db)))"
    using m by (simp add: handleRevokeInvitation_def delete_invitations_def
          invitations_select_policy_def invitations_delete_policy_def bob_invitation_def)
  from m o c b r show ?thesis by (intro conjI)
qed

text \<open>
  Claim C4, amended. Creating and revoking invitations are permitted only to the owner and
  to accepted members of the project: for every user who is neither, \<open>handleInviteUser\<close>
  leaves the database as it is and reports "Failed to send invitation", and
  \<open>handleRevokeInvitation\<close> deletes no invitation of that project.
\<close>

theorem invitation_writes_denied:
  assumes no: "\<not> is_project_owner uid d projectId"
      and nm: "\<not> is_project_member uid d projectId"
  shows "snd (handleInviteUser uid now new_id new_token email_error projectId userId
                inviteEmail inviteRole d) = d
       \<and> (trim inviteEmail \<noteq> [] \<longrightarrow>
            fst (handleInviteUser uid now new_id new_token email_error projectId userId
                   inviteEmail inviteRole d) = Some toast_invite_error)
       \<and> (\<forall>i\<in>set (project_invitations d). pi_project_id i = projectId \<longrightarrow>
            i \<in> set (project_invitations (snd (handleRevokeInvitation uid invitationId d))))"
proof -
  define flt where "flt = (\<lambda>i::project_invitations_row. pi_project_id i = projectId
      \<and> pi_email i = toLowerCase (trim inviteEmail) \<and> pi_accepted_at i = None)"
  define row where "row = new_invitation now new_id new_token projectId
      (toLowerCase (trim inviteEmail)) inviteRole userId"
  have del: "delete_invitations uid flt d = d"
    by (rule delete_invitations_nothing)
       (use no nm in \<open>auto simp: flt_def invitations_delete_policy_def\<close>)
  have ins: "insert_invitation uid row d = Inl rls_violation"
    using no nm
    by (simp add: insert_invitation_def invitations_insert_check_def row_def new_invitation_def)
  have h: "handleInviteUser uid now new_id new_token email_error projectId userId
             inviteEmail inviteRole d =
           (if trim inviteEmail = [] then (None, d) else (Some toast_invite_error, d))"
    by (simp add: handleInviteUser_def Let_def del[unfolded flt_def] ins[unfolded row_def])
  have rev: "i \<in> set (project_invitations (snd (handleRevokeInvitation uid invitationId d)))"
    if "i \<in> set (project_invitations d)" and "pi_project_id i = projectId" for i
    using that no nm
    by (simp add: handleRevokeInvitation_def delete_invitations_def
          invitations_delete_policy_def)
  from h rev show ?thesis by simp
qed

theorem invitation_writes_denied_witness:
  "\<not> is_project_owner (Some 6) example_db 10
   \<and> \<not> is_project_member (Some 6) example_db 10
   \<and> trim ''zoe@x.com'' \<noteq> []
   \<and> snd (handleInviteUser (Some 6) 100 33 43 False 10 6 ''zoe@x.com'' Contributor example_db)
        = example_db
   \<and> fst (handleInviteUser (Some 6) 100 33 43 False 10 6 ''zoe@x.com'' Contributor example_db)
        = Some toast_invite_error
   \<and> bob_invitation \<in> set (project_invitations example_db)
   \<and> pi_project_id bob_invitation = 10
   \<and> bob_invitation
        \<in> set (project_invitations (snd (handleRevokeInvitation (Some 6) 30 example_db)))"
proof -
  have h1: "\<not> is_project_owner (Some 6) example_db 10"
    by (simp add: is_project_owner_def example_db_def)
  have h2: "\<not> is_project_member (Some 6) example_db 10"
    by (simp add: is_project_member_def example_db_def)
  have h3: "trim ''zoe@x.com'' \<noteq> []" by code_simp
  have h4: "bob_invitation \<in> set (project_invitations example_db)"
    by (simp add: example_db_def bob_invitation_def)
  have h5: "pi_project_id bob_invitation = 10"
    by (simp add: bob_invitation_def)
  note a = invitation_writes_denied[OF h1 h2,
      of 100 33 43 False 6 "''zoe@x.com''" Contributor 30]
  from a h1 h2 h3 h4 h5 show ?thesis by blast
qed

text \<open>
  Claim C8. When the invitation row has been inserted and the call of \<open>send-invitation\<close>
  returns an error, \<open>handleInviteUser\<close> ends with the same database as when the e-mail is
  sent: the new row is in \<open>project_invitations\<close>, nothing is rolled back, and the toast shown
  is titled "Warning". The insert goes through when the caller is owner or member, the
  generated id is unused and no accepted invitation holds the same project and e-mail.
\<close>

theorem email_failure_keeps_invitation:
  assumes auth: "is_project_owner uid d projectId \<or> is_project_member uid d projectId"
      and nonempty: "trim inviteEmail \<noteq> []"
      and fresh: "new_id \<notin> pi_id ` set (project_invitations d)"
      and noacc: "\<forall>i\<in>set (project_invitations d).
                    pi_project_id i = projectId \<and> pi_email i = toLowerCase (trim inviteEmail)
                      \<longrightarrow> pi_accepted_at i = None"
  shows "handleInviteUser uid now new_id new_token True projectId userId inviteEmail inviteRole d
           = (Some toast_warning,
              snd (handleInviteUser uid now new_id new_token False projectId userId inviteEmail
                     inviteRole d))
       \<and> title toast_warning = ''Warning''
       \<and> new_invitation now new_id new_token projectId (toLowerCase (trim inviteEmail))
            inviteRole userId
           \<in> set (project_invitations
                 (snd (handleInviteUser uid now new_id new_token True projectId userId
                         inviteEmail inviteRole d)))"
proof -
  note t = handleInviteUser_creates[OF auth nonempty fresh noacc, where email_error = True]
  note f = handleInviteUser_creates[OF auth nonempty fresh noacc, where email_error = False]
  have 1: "handleInviteUser uid now new_id new_token True projectId userId inviteEmail inviteRole d
           = (Some toast_warning,
              snd (handleInviteUser uid now new_id new_token False projectId userId inviteEmail
                     inviteRole d))"
    unfolding t f by simp
  have 2: "title toast_warning = ''Warning''" by (simp add: toast_warning_def)
  have 3: "new_invitation now new_id new_token projectId (toLowerCase (trim inviteEmail))
            inviteRole userId
           \<in> set (project_invitations
                 (snd (handleInviteUser uid now new_id new_token True projectId userId
                         inviteEmail inviteRole d)))"
    unfolding t by simp
  from 1 2 3 show ?thesis by (intro conjI)
qed

theorem email_failure_keeps_invitation_witness:
  "is_project_owner (Some 1) example_db 10
   \<and> trim ''Zoe@x.com '' \<noteq> []
   \<and> 33 \<notin> pi_id ` set (project_invitations example_db)
   \<and> list_all (\<lambda>i. pi_project_id i = 10 \<and> pi_email i = toLowerCase (trim ''Zoe@x.com '')
                     \<longrightarrow> pi_accepted_at i = None) (project_invitations example_db)
   \<and> handleInviteUser (Some 1) 100 33 43 True 10 1 ''Zoe@x.com '' Contributor example_db
        = (Some toast_warning,
           snd (handleInviteUser (Some 1) 100 33 43 False 10 1 ''Zoe@x.com '' Contributor
                  example_db))
   \<and> new_invitation 100 33 43 10 (toLowerCase (trim ''Zoe@x.com '')) Contributor 1
        \<in> set (project_invitations
              (snd (handleInviteUser (Some 1) 100 33 43 True 10 1 ''Zoe@x.com '' Contributor
                      example_db)))"
proof -
  have t: "trim ''Zoe@x.com '' = ''Zoe@x.com''" by code_simp
  have l: "toLowerCase ''Zoe@x.com'' = ''zoe@x.com''" by code_simp
  have h1: "is_project_owner (Some 1) example_db 10"
    by (simp add: is_project_owner_def example_db_def)
  have h2: "trim ''Zoe@x.com '' \<noteq> []" by (simp add: t)
  have h3: "33 \<notin> pi_id ` set (project_invitations example_db)"
    by (simp add: example_db_def)
  have h4: "\<forall>i\<in>set (project_invitations example_db).
              pi_project_id i = 10 \<and> pi_email i = toLowerCase (trim ''Zoe@x.com '')
                \<longrightarrow> pi_accepted_at i = None"
    by (simp add: example_db_def t l)
  have h4': "list_all (\<lambda>i. pi_project_id i = 10 \<and> pi_email i = toLowerCase (trim ''Zoe@x.com '')
                     \<longrightarrow> pi_accepted_at i = None) (project_invitations example_db)"
    unfolding list_all_iff by (rule h4)
  note a = email_failure_keeps_invitation[OF disjI1[OF h1] h2 h3 h4,
      of 100 43 1 Contributor]
  from a h1 h2 h3 h4' show ?thesis by blast
qed

text \<open>
  Claim C10. When an accepted invitation exists for the project and the lower-cased,
  trimmed e-mail, \<open>handleInviteUser\<close> by an owner or member deletes nothing (only rows with
  \<open>accepted_at IS NULL\<close> are deleted), its insert fails with a unique violation, no row is
  added, and the handler reports "Failed to send invitation".
\<close>

theorem accepted_invitation_blocks_reinvite:
  assumes auth: "is_project_owner uid d projectId \<or> is_project_member uid d projectId"
      and nonempty: "trim inviteEmail \<noteq> []"
      and uniq: "invitations_unique d"
      and a_in: "a \<in> set (project_invitations d)"
      and a_key: "pi_project_id a = projectId" "pi_email a = toLowerCase (trim inviteEmail)"
      and a_acc: "pi_accepted_at a \<noteq> None"
  shows "insert_invitation uid
           (new_invitation now new_id new_token projectId (toLowerCase (trim inviteEmail))
              inviteRole userId)
           (delete_invitations uid
              (\<lambda>i. pi_project_id i = projectId \<and> pi_email i = toLowerCase (trim inviteEmail)
                    \<and> pi_accepted_at i = None) d)
           = Inl unique_violation
       \<and> handleInviteUser uid now new_id new_token email_error projectId userId inviteEmail
           inviteRole d = (Some toast_invite_error, d)"
proof -
  define email where "email = toLowerCase (trim inviteEmail)"
  define flt where "flt = (\<lambda>i::project_invitations_row. pi_project_id i = projectId
      \<and> pi_email i = email \<and> pi_accepted_at i = None)"
  define row where "row = new_invitation now new_id new_token projectId email inviteRole userId"
  have noflt: "\<not> flt i" if i: "i \<in> set (project_invitations d)" for i
  proof
    assume f: "flt i"
    then have "(pi_project_id i, pi_email i) = (pi_project_id a, pi_email a)"
      using a_key by (simp add: flt_def email_def)
    with uniq i a_in have "i = a"
      unfolding invitations_unique_def
      by (rule same_key_same_row[where f = "\<lambda>i. (pi_project_id i, pi_email i)"])
    with f a_acc show False by (simp add: flt_def)
  qed
  have del: "delete_invitations uid flt d = d"
    by (rule delete_invitations_nothing) (use noflt in blast)
  have rowp: "pi_project_id row = projectId" "pi_email row = email"
    by (simp_all add: row_def new_invitation_def)
  have chk: "invitations_insert_check uid d row \<and> invitations_select_policy uid d row"
    using auth by (auto simp: invitations_insert_check_def invitations_select_policy_def rowp)
  have dup: "list_ex (\<lambda>i. pi_project_id i = pi_project_id row \<and> pi_email i = pi_email row)
               (project_invitations d)"
    unfolding list_ex_iff rowp using a_in a_key email_def by blast
  have ins: "insert_invitation uid row d = Inl unique_violation"
    using chk dup by (simp add: insert_invitation_def)
  have h: "handleInviteUser uid now new_id new_token email_error projectId userId inviteEmail
           inviteRole d = (Some toast_invite_error, d)"
    using nonempty
    by (simp add: handleInviteUser_def Let_def del[unfolded flt_def email_def]
          ins[unfolded row_def email_def])
  from ins del h show ?thesis
    unfolding row_def flt_def email_def by simp
qed

theorem accepted_invitation_blocks_reinvite_witness:
  "is_project_owner (Some 1) example_db 10
   \<and> trim ''Carol@X.com'' \<noteq> []
   \<and> invitations_unique example_db
   \<and> carol_invitation \<in> set (project_invitations example_db)
   \<and> pi_project_id carol_invitation = 10
   \<and> pi_email carol_invitation = toLowerCase (trim ''Carol@X.com'')
   \<and> pi_accepted_at carol_invitation \<noteq> None
   \<and> handleInviteUser (Some 1) 100 33 43 False 10 1 ''Carol@X.com'' Contributor example_db
        = (Some toast_invite_error, example_db)"
proof -
  have t: "trim ''Carol@X.com'' = ''Carol@X.com''" by code_simp
  have l: "toLowerCase ''Carol@X.com'' = ''carol@x.com''" by code_simp
  have h1: "is_project_owner (Some 1) example_db 10"
    by (simp add: is_project_owner_def example_db_def)
  have h2: "trim ''Carol@X.com'' \<noteq> []" by (simp add: t)
  have h3: "invitations_unique example_db"
    by (simp add: invitations_unique_def example_db_def)
  have h4: "carol_invitation \<in> set (project_invitations example_db)"
    by (simp add: example_db_def carol_invitation_def)
  have h5: "pi_project_id carol_invitation = 10"
    by (simp add: carol_invitation_def)
  have h6: "pi_email carol_invitation = toLowerCase (trim ''Carol@X.com'')"
    by (simp add: carol_invitation_def t l)
  have h7: "pi_accepted_at carol_invitation \<noteq> None"
    by (simp add: carol_invitation_def)
  note a = accepted_invitation_blocks_reinvite[OF disjI1[OF h1] h2 h3 h4 h5 h6 h7,
      of 100 33 43 Contributor 1 False]
  from a h1 h2 h3 h4 h5 h6 h7 show ?thesis by blast
qed

section \<open>Letter case of e-mail addresses\<close>







section \<open>At most one pending invitation\<close>

lemma at_most_one_with_key:
  assumes "distinct (map f xs)"
  shows "length (filter (\<lambda>x. f x = k \<and> Q x) xs) \<le> 1"
  using assms
proof (induction xs)
  case Nil
  then show ?case by simp
next
  case (Cons a xs)
  then have IH: "length (filter (\<lambda>x. f x = k \<and> Q x) xs) \<le> 1"
    and notin: "f a \<notin> f ` set xs"
    by simp_all
  show ?case
  proof (cases "f a = k \<and> Q a")
    case True
    with notin have "\<forall>x\<in>set xs. \<not> (f x = k \<and> Q x)" by blast
    then have "filter (\<lambda>x. f x = k \<and> Q x) xs = []" by (simp add: filter_empty_conv)
    with True show ?thesis by simp
  next
    case False
    then have "filter (\<lambda>x. f x = k \<and> Q x) (a # xs) = filter (\<lambda>x. f x = k \<and> Q x) xs"
      by (simp only: filter.simps if_False)
    with IH show ?thesis by (simp only:)
  qed
qed

lemma delete_invitations_unique:
  assumes "invitations_unique d"
  shows "invitations_unique (delete_invitations uid flt d)"
  using assms
  by (simp add: invitations_unique_def delete_invitations_def distinct_map_filter)

lemma insert_invitation_unique:
  assumes "invitations_unique d" and "insert_invitation uid row d = Inr d'"
  shows "invitations_unique d'"
proof -
  from assms(2) have d': "d' = d\<lparr>project_invitations := project_invitations d @ [row]\<rparr>"
    and new: "\<not> list_ex (\<lambda>i. pi_project_id i = pi_project_id row \<and> pi_email i = pi_email row)
                (project_invitations d)"
    by (simp_all add: insert_invitation_def split: if_splits)
  from new have "(pi_project_id row, pi_email row)
      \<notin> set (map (\<lambda>i. (pi_project_id i, pi_email i)) (project_invitations d))"
    unfolding list_ex_iff by auto
  with assms(1) show ?thesis by (simp add: invitations_unique_def d')
qed

lemma accept_invitation_unique:
  assumes "invitations_unique d"
      and "accept_invitation uid now new_member_id invitation_token d = Inr (r, d')"
  shows "invitations_unique d'"
proof (cases "select_invitation invitation_token now d")
  case None
  with assms show ?thesis by (simp add: accept_invitation_def)
next
  case (Some invitation)
  define mark where "mark = (\<lambda>i::project_invitations_row.
      if pi_id i = pi_id invitation then i\<lparr>pi_accepted_at := Some now\<rparr> else i)"
  have keys: "map (\<lambda>i. (pi_project_id i, pi_email i)) (map mark xs)
      = map (\<lambda>i. (pi_project_id i, pi_email i)) xs" for xs
    by (induction xs) (simp_all add: mark_def)
  from assms(2) Some
  have "project_invitations d' = project_invitations d
      \<or> project_invitations d' = map mark (project_invitations d)"
    by (auto simp: accept_invitation_def mark_def split: if_splits sum.splits)
  with assms(1) show ?thesis
    unfolding invitations_unique_def using keys by metis
qed

lemma execute_unique:
  assumes "invitations_unique d"
  shows "invitations_unique (execute s d)"
proof (cases s)
  case (Delete_pending_invitations uid projectId email)
  with assms show ?thesis by (simp add: delete_invitations_unique)
next
  case (Insert_invitation uid now new_id new_token projectId email role invited_by)
  with assms show ?thesis
    by (auto split: sum.splits dest: insert_invitation_unique)
next
  case (Delete_invitation uid invitationId)
  with assms show ?thesis by (simp add: delete_invitations_unique)
next
  case (Rpc_accept_invitation uid now new_member_id invitation_token)
  with assms show ?thesis
    by (auto split: sum.splits dest: accept_invitation_unique)
next
  case (Delete_member uid memberId)
  with assms show ?thesis by (simp add: invitations_unique_def delete_member_def)
next
  case (Update_member_role uid now memberId newRole)
  with assms show ?thesis by (simp add: invitations_unique_def update_member_role_def)
next
  case (Insert_project uid now new_id new_member_id project_name project_description owner_id)
  have "project_invitations d' = project_invitations d"
    if "insert_project uid now new_id new_member_id project_name project_description owner_id d
          = Inr (NEW, d')" for NEW d'
    using that
    by (auto simp: insert_project_def Let_def add_owner_as_member_def
          split: if_splits sum.splits)
  with assms Insert_project show ?thesis
    by (auto simp: invitations_unique_def split: sum.splits)
qed

lemma run_unique:
  assumes "invitations_unique d"
  shows "invitations_unique (run stmts d)"
  using assms by (induction stmts arbitrary: d) (simp_all add: execute_unique)

text \<open>
  Claim C7. Starting from a database that satisfies \<open>UNIQUE(project_id, email)\<close>, after any
  sequence of the application's statements, in any interleaving, there is at most one
  invitation with \<open>accepted_at\<close> \<open>NULL\<close> for each project and e-mail. \<open>handleInviteUser\<close> is
  the delete of the pending invitations of the pair followed by the insert of the new
  row, and for an owner or member the delete leaves no pending invitation of the pair.
\<close>

theorem at_most_one_pending_invitation:
  assumes "invitations_unique d"
  shows "invitations_unique (run stmts d)
       \<and> length (pending_invitations_for (run stmts d) projectId email) \<le> 1
       \<and> (trim inviteEmail \<noteq> [] \<longrightarrow>
            snd (handleInviteUser uid now new_id new_token email_error p userId inviteEmail
                   inviteRole d)
              = run [Delete_pending_invitations uid p (toLowerCase (trim inviteEmail)),
                     Insert_invitation uid now new_id new_token p
                       (toLowerCase (trim inviteEmail)) inviteRole userId] d)
       \<and> (is_project_owner uid d p \<or> is_project_member uid d p \<longrightarrow>
            pending_invitations_for (execute (Delete_pending_invitations uid p e) d) p e = [])"
proof (intro conjI impI)
  show u: "invitations_unique (run stmts d)"
    by (rule run_unique[OF assms])
  have "length (filter (\<lambda>i. (pi_project_id i, pi_email i) = (projectId, email)
                          \<and> pi_accepted_at i = None) (project_invitations (run stmts d))) \<le> 1"
    by (rule at_most_one_with_key[OF u[unfolded invitations_unique_def]])
  then show "length (pending_invitations_for (run stmts d) projectId email) \<le> 1"
    by (simp add: pending_invitations_for_def conj_assoc)
next
  assume "trim inviteEmail \<noteq> []"
  then show "snd (handleInviteUser uid now new_id new_token email_error p userId inviteEmail
                   inviteRole d)
              = run [Delete_pending_invitations uid p (toLowerCase (trim inviteEmail)),
                     Insert_invitation uid now new_id new_token p
                       (toLowerCase (trim inviteEmail)) inviteRole userId] d"
    by (simp add: handleInviteUser_def Let_def split: sum.splits)
next
  assume auth: "is_project_owner uid d p \<or> is_project_member uid d p"
  define flt where "flt = (\<lambda>i::project_invitations_row. pi_project_id i = p \<and> pi_email i = e
      \<and> pi_accepted_at i = None)"
  have "delete_invitations uid flt d =
           d\<lparr>project_invitations := filter (\<lambda>i. \<not> flt i) (project_invitations d)\<rparr>"
    by (rule delete_invitations_authorized[OF auth]) (simp add: flt_def)
  then have "pending_invitations_for (delete_invitations uid flt d) p e
      = filter flt (filter (\<lambda>i. \<not> flt i) (project_invitations d))"
    by (simp add: pending_invitations_for_def flt_def)
  also have "\<dots> = []" by (simp add: filter_empty_conv)
  finally show "pending_invitations_for (execute (Delete_pending_invitations uid p e) d) p e = []"
    by (simp add: flt_def)
qed

theorem at_most_one_pending_invitation_witness:
  "invitations_unique example_db
   \<and> is_project_owner (Some 1) example_db 10
   \<and> trim ''Bob@x.com'' \<noteq> []
   \<and> length (pending_invitations_for example_db 10 ''bob@x.com'') = 1
   \<and> length (pending_invitations_for
               (run [Delete_pending_invitations (Some 1) 10 ''bob@x.com'',
                     Insert_invitation (Some 1) 100 33 43 10 ''bob@x.com'' Owner 1,
                     Rpc_accept_invitation (Some 2) 200 22 43] example_db)
               10 ''bob@x.com'') \<le> 1
   \<and> snd (handleInviteUser (Some 1) 100 33 43 False 10 1 ''Bob@x.com'' Owner example_db)
        = run [Delete_pending_invitations (Some 1) 10 (toLowerCase (trim ''Bob@x.com'')),
               Insert_invitation (Some 1) 100 33 43 10 (toLowerCase (trim ''Bob@x.com''))
                 Owner 1] example_db
   \<and> pending_invitations_for
         (execute (Delete_pending_invitations (Some 1) 10 ''bob@x.com'') example_db)
         10 ''bob@x.com'' = []
   \<and> pending_invitations_for
         (run [Delete_pending_invitations (Some 1) 10 ''bob@x.com'',
               Insert_invitation (Some 1) 100 33 43 10 ''bob@x.com'' Owner 1] example_db)
         10 ''bob@x.com'' = [new_invitation 100 33 43 10 ''bob@x.com'' Owner 1]"
proof -
  have h1: "invitations_unique example_db"
    by (simp add: invitations_unique_def example_db_def)
  have h2: "is_project_owner (Some 1) example_db 10"
    by (simp add: is_project_owner_def example_db_def)
  have h3: "trim ''Bob@x.com'' \<noteq> []" by code_simp
  have h4: "length (pending_invitations_for example_db 10 ''bob@x.com'') = 1"
    by (simp add: pending_invitations_for_def example_db_def)
  note a = at_most_one_pending_invitation[OF h1,
      of "[Delete_pending_invitations (Some 1) 10 ''bob@x.com'',
           Insert_invitation (Some 1) 100 33 43 10 ''bob@x.com'' Owner 1,
           Rpc_accept_invitation (Some 2) 200 22 43]" 10 "''bob@x.com''" "''Bob@x.com''"
         "Some 1" 100 33 43 False 10 1 Owner "''bob@x.com''"]
  have h5: "pending_invitations_for
         (run [Delete_pending_invitations (Some 1) 10 ''bob@x.com'',
               Insert_invitation (Some 1) 100 33 43 10 ''bob@x.com'' Owner 1] example_db)
         10 ''bob@x.com'' = [new_invitation 100 33 43 10 ''bob@x.com'' Owner 1]"
    by (simp add: pending_invitations_for_def delete_invitations_def insert_invitation_def
          invitations_insert_check_def invitations_select_policy_def
          invitations_delete_policy_def is_project_owner_def new_invitation_def
          example_db_def)
  from a h1 h2 h3 h4 h5 show ?thesis by blast
qed

end
